theory Spec2Isabelle
  imports Main
begin

section \<open>Values, errors and effects of \<open>ASEr/cluster.py\<close>\<close>

text \<open>
  Python strings are character lists. Exceptions are values: every operation returns its
  result or the error raised, together with the list of effects it performed, in order.
  The external tools (\<open>sbatch\<close>, \<open>qsub\<close>, \<open>squeue\<close>, \<open>qstat\<close>) are given by the list
  of their successive replies: \<open>Failed\<close> is a non-zero exit (CalledProcessError), \<open>Out\<close>
  the decoded output. Errors of the operating system on opening a job file are not modelled.
\<close>

datatype error =
    ClusterError | CalledProcessError | IndexError | ValueError | Exception | OSError
  | UnboundLocalError

datatype apply_result = ApplyResult (ar_id: nat) (ar_command: string) (ar_stdout: string) (ar_stderr: string)

datatype atom = StrV string | IntV int | AsyncV apply_result | NoneV

datatype arg = One atom | ListOf "atom list" | TupleOf "atom list"

datatype reply = Failed | Out string

datatype event =
    Sleep nat
  | Exec "string list"
  | Log string string
  | Write string string
  | Join apply_result
  | NewPool "nat option"
  | ApplyAsync string string string

text \<open>
  What a call that talks to an external tool has come to when the replies are used up:
  it has returned, it has raised, or it is still in its loop (with the loop's variable).
\<close>

datatype ('a, 's) outcome = Returned 'a | Raised error | Running 's

definition emit :: "event list \<Rightarrow> 'r \<times> event list \<Rightarrow> 'r \<times> event list" where
  "emit es r = (fst r, es @ snd r)"

record pool =
  processes :: "nat option"
  submitted :: "apply_result list"

record state =
  QUEUE :: string
  POOL :: "pool option"

definition ALLOWED_QUEUES :: "string list" where
  "ALLOWED_QUEUES = [''torque'', ''slurm'', ''normal'']"

text \<open>The module starts with \<open>QUEUE = 'normal'\<close> and \<open>POOL = None\<close>.\<close>

definition initial :: state where
  "initial = \<lparr>QUEUE = ''normal'', POOL = None\<rparr>"


section \<open>The Python library functions the module calls\<close>

subsection \<open>Strings\<close>

text \<open>
  Characters stand for code points below 256. \<open>isspace\<close> is \<open>str.isspace\<close> on them:
  the white space that \<open>rstrip()\<close> removes.
\<close>

definition isspace :: "char \<Rightarrow> bool" where
  "isspace c = List.member [CHR 0x09, CHR 0x0A, CHR 0x0B, CHR 0x0C, CHR 0x0D, CHR 0x1C,
     CHR 0x1D, CHR 0x1E, CHR 0x1F, CHR 0x20, CHR 0x85, CHR 0xA0] c"

definition rstrip :: "string \<Rightarrow> string" where
  "rstrip s = rev (dropWhile isspace (rev s))"

definition startswith :: "string \<Rightarrow> string \<Rightarrow> bool" where
  "startswith s p = (take (length p) s = p)"

definition endswith :: "string \<Rightarrow> string \<Rightarrow> bool" where
  "endswith s e = (take (length e) (rev s) = rev e)"

text \<open>\<open>s.split(c)\<close> for a separator of one character: one more piece than separators.\<close>

fun split_on :: "char \<Rightarrow> string \<Rightarrow> string list" where
  "split_on c [] = [[]]"
| "split_on c (x # xs) =
     (if x = c then [] # split_on c xs
      else (case split_on c xs of p # ps \<Rightarrow> (x # p) # ps | [] \<Rightarrow> [[x]]))"

text \<open>\<open>sep.join(pieces)\<close>.\<close>

fun join_with :: "string \<Rightarrow> string list \<Rightarrow> string" where
  "join_with sep [] = []"
| "join_with sep [p] = p"
| "join_with sep (p # q # ps) = p @ sep @ join_with sep (q # ps)"

text \<open>\<open>xs[n]\<close> for \<open>n \<ge> 0\<close> raises IndexError out of range.\<close>

definition index :: "'a list \<Rightarrow> nat \<Rightarrow> error + 'a" where
  "index xs n = (if n < length xs then Inr (xs ! n) else Inl IndexError)"

text \<open>\<open>str(n)\<close> of an integer, and the hexadecimal digits of an address.\<close>

fun str_nat :: "nat \<Rightarrow> string" where
  "str_nat n = (if n < 10 then [char_of (48 + n)]
                else str_nat (n div 10) @ [char_of (48 + n mod 10)])"

declare str_nat.simps [simp del]

definition str_int :: "int \<Rightarrow> string" where
  "str_int i = (if i < 0 then CHR ''-'' # str_nat (nat (- i)) else str_nat (nat i))"

fun hex_nat :: "nat \<Rightarrow> string" where
  "hex_nat n = (if n < 16 then [''0123456789abcdef'' ! n]
                else hex_nat (n div 16) @ [''0123456789abcdef'' ! (n mod 16)])"

declare hex_nat.simps [simp del]

text \<open>
  \<open>int(s)\<close> in base ten, as Python 3.11 and later read it with the default settings. The
  white space taken off both ends is tab to carriage return and the space, and of the
  code points above 126 those that are white space; the separators 0x1C to 0x1F are not
  taken off. Then come one optional sign and digits with single underscores between
  them, at most 4300 digits. Anything else is a ValueError.
\<close>

definition int_space :: "char \<Rightarrow> bool" where
  "int_space c = List.member [CHR 0x09, CHR 0x0A, CHR 0x0B, CHR 0x0C, CHR 0x0D, CHR 0x20,
     CHR 0x85, CHR 0xA0] c"

definition isdigit :: "char \<Rightarrow> bool" where
  "isdigit c = (48 \<le> (of_char c :: nat) \<and> (of_char c :: nat) \<le> 57)"

fun int_literal :: "bool \<Rightarrow> string \<Rightarrow> bool" where
  "int_literal after_digit [] = after_digit"
| "int_literal after_digit (c # cs) =
     (if isdigit c then int_literal True cs
      else if c = CHR ''_'' \<and> after_digit then int_literal False cs
      else False)"

definition int_value :: "string \<Rightarrow> int" where
  "int_value s = foldl (\<lambda>a c. if c = CHR ''_'' then a else 10 * a + (int (of_char c) - 48)) 0 s"

definition py_int :: "string \<Rightarrow> error + int" where
  "py_int s =
     (let t = rev (dropWhile int_space (rev (dropWhile int_space s)));
          neg = startswith t ''-'';
          body = (if startswith t ''-'' \<or> startswith t ''+'' then tl t else t)
      in if int_literal False body \<and> length (filter isdigit body) \<le> 4300
         then Inr (if neg then - int_value body else int_value body)
         else Inl ValueError)"

subsection \<open>Regular-expression splitting on runs of spaces\<close>

text \<open>
  \<open>re.split\<close> for the two patterns of the module, \<open>' +'\<close> and \<open>' {2,100}'\<close>: a match is
  a run of at least \<open>lo\<close> spaces, taken greedily up to \<open>hi\<close> of them. \<open>piece\<close> is the piece
  read so far and \<open>run\<close> the number of spaces just read that are not yet part of it.
\<close>

fun re_split_spaces :: "nat \<Rightarrow> nat option \<Rightarrow> string \<Rightarrow> nat \<Rightarrow> string \<Rightarrow> string list" where
  "re_split_spaces lo hi piece run [] =
     (if lo \<le> run then [piece, []] else [piece @ replicate run (CHR '' '')])"
| "re_split_spaces lo hi piece run (c # cs) =
     (if c = CHR '' '' then
        (if hi = Some (Suc run) then piece # re_split_spaces lo hi [] 0 cs
         else re_split_spaces lo hi piece (Suc run) cs)
      else if lo \<le> run then piece # re_split_spaces lo hi [c] 0 cs
      else re_split_spaces lo hi (piece @ replicate run (CHR '' '') @ [c]) 0 cs)"

definition split_spaces :: "string \<Rightarrow> string list" where
  "split_spaces s = re_split_spaces 1 None [] 0 s"

definition split_columns :: "string \<Rightarrow> string list" where
  "split_columns s = re_split_spaces 2 (Some 100) [] 0 s"

subsection \<open>\<open>os.path\<close> on POSIX\<close>

definition path_join :: "string \<Rightarrow> string \<Rightarrow> string" where
  "path_join a b =
     (if startswith b ''/'' then b
      else if a = [] \<or> endswith a ''/'' then a @ b
      else a @ ''/'' @ b)"

definition norm_step :: "nat \<Rightarrow> string list \<Rightarrow> string \<Rightarrow> string list" where
  "norm_step initial_slashes new_comps part =
     (if part = [] \<or> part = ''.'' then new_comps
      else if part = ''..'' then
        (if (initial_slashes = 0 \<and> new_comps = []) then new_comps @ [part]
         else if new_comps = [] then new_comps
         else if last new_comps = ''..'' then new_comps @ [part]
         else butlast new_comps)
      else new_comps @ [part])"

definition normpath :: "string \<Rightarrow> string" where
  "normpath path =
     (if path = [] then ''.''
      else let initial_slashes =
                 (if startswith path ''/'' then
                    (if startswith path ''//'' \<and> \<not> startswith path ''///'' then 2 else 1)
                  else (0::nat));
               comps = foldl (norm_step initial_slashes) [] (split_on CHR ''/'' path);
               p = replicate initial_slashes CHR ''/'' @ join_with ''/'' comps
           in if p = [] then ''.'' else p)"

definition abspath :: "string \<Rightarrow> string \<Rightarrow> string" where
  "abspath cwd path = normpath (if startswith path ''/'' then path else path_join cwd path)"

subsection \<open>\<open>textwrap.dedent\<close>\<close>

definition blank :: "char \<Rightarrow> bool" where
  "blank c = (c = CHR '' '' \<or> c = CHR 0x09)"

fun common_prefix :: "string \<Rightarrow> string \<Rightarrow> string" where
  "common_prefix (x # xs) (y # ys) = (if x = y then x # common_prefix xs ys else [])"
| "common_prefix xs ys = []"

definition margin_step :: "string option \<Rightarrow> string \<Rightarrow> string option" where
  "margin_step margin indent =
     (case margin of
        None \<Rightarrow> Some indent
      | Some m \<Rightarrow>
          if startswith indent m then Some m
          else if startswith m indent then Some indent
          else Some (common_prefix m indent))"

definition dedent :: "string \<Rightarrow> string" where
  "dedent text =
     (let lines = map (\<lambda>l. if list_all blank l then [] else l) (split_on CHR 0x0A text);
          indents = map (takeWhile blank) (filter (\<lambda>l. l \<noteq> []) lines);
          margin = foldl margin_step None indents
      in case margin of
           None \<Rightarrow> join_with [CHR 0x0A] lines
         | Some m \<Rightarrow>
             if m = [] then join_with [CHR 0x0A] lines
             else join_with [CHR 0x0A]
                    (map (\<lambda>l. if startswith l m then drop (length m) l else l) lines))"

section \<open>The module\<close>

subsection \<open>House keeping\<close>

definition check_queue :: "state \<Rightarrow> error + unit" where
  "check_queue st = (if QUEUE st \<in> set ALLOWED_QUEUES then Inr () else Inl ClusterError)"

subsection \<open>Detecting the environment\<close>

text \<open>
  \<open>run.which\<close> belongs to a module of the package that is not among the sources; only the
  truth value of its result is used, so it is the parameter \<open>which\<close>.
\<close>

definition get_cluster_environment :: "(string \<Rightarrow> bool) \<Rightarrow> state \<Rightarrow> (string \<times> state) \<times> event list" where
  "get_cluster_environment which st =
     (let q = (if which ''sbatch'' then ''slurm''
               else if which ''qsub'' then ''torque''
               else ''local'');
          st' = st\<lparr>QUEUE := q\<rparr>
      in ((q, st'),
          [if q = ''slurm'' \<or> q = ''torque''
           then Log (q @ '' detected, using for cluster submissions'') ''debug''
           else Log ''No cluster environment detected, using multiprocessing'' ''debug'']))"

subsection \<open>Python values\<close>

text \<open>
  \<open>str(x)\<close>, the truth value of \<open>x\<close> in a condition, and the test
  \<open>isinstance(job, (str, int, pool.ApplyResult))\<close>. An ApplyResult prints as an object with
  its address, here its \<open>ar_id\<close>.
\<close>

fun str_atom :: "atom \<Rightarrow> string" where
  "str_atom (StrV s) = s"
| "str_atom (IntV i) = str_int i"
| "str_atom (AsyncV a) = ''<multiprocessing.pool.ApplyResult object at 0x'' @ hex_nat (ar_id a) @ ''>''"
| "str_atom NoneV = ''None''"

fun truthy_atom :: "atom \<Rightarrow> bool" where
  "truthy_atom (StrV s) = (s \<noteq> [])"
| "truthy_atom (IntV i) = (i \<noteq> 0)"
| "truthy_atom (AsyncV a) = True"
| "truthy_atom NoneV = False"

fun truthy :: "arg \<Rightarrow> bool" where
  "truthy (One a) = truthy_atom a"
| "truthy (ListOf xs) = (xs \<noteq> [])"
| "truthy (TupleOf xs) = (xs \<noteq> [])"

fun is_job :: "atom \<Rightarrow> bool" where
  "is_job NoneV = False"
| "is_job a = True"

subsection \<open>Waiting for jobs\<close>

definition qstat_args :: "string list" where
  "qstat_args = [''qstat'', ''-a'']"

definition squeue_args :: "string list" where
  "squeue_args = [''squeue'', ''-h'', ''-o'', [CHR 0x27] @ ''%A,%t'' @ [CHR 0x27]]"

text \<open>\<open>field.split('.')[0]\<close>.\<close>

definition job_id :: "string \<Rightarrow> string" where
  "job_id field = hd (split_on CHR ''.'' field)"

text \<open>The list \<open>complete\<close> of the torque branch: \<open>i[9]\<close> is read in every row.\<close>

fun torque_complete :: "string list \<Rightarrow> error + string list" where
  "torque_complete [] = Inr []"
| "torque_complete (j # rows) =
     (let i = split_spaces j in
      case index i 9 of
        Inl e \<Rightarrow> Inl e
      | Inr s \<Rightarrow>
          (case torque_complete rows of
             Inl e \<Rightarrow> Inl e
           | Inr complete \<Rightarrow> Inr (if s = ''C'' then job_id (hd i) # complete else complete)))"

text \<open>One pass of the torque loop after \<open>qstat\<close> has answered: the jobs still tracked.\<close>

definition torque_poll :: "string \<Rightarrow> string list \<Rightarrow> error + string list" where
  "torque_poll out jobs =
     (let q = split_on CHR 0x0A (rstrip out) in
      case index q 3 of
        Inl e \<Rightarrow> Inl e
      | Inr header \<Rightarrow>
          (case index (split_columns header) 9 of
             Inl e \<Rightarrow> Inl e
           | Inr s \<Rightarrow>
               if s \<noteq> ''S'' then Inl ClusterError
               else
                 (case torque_complete (drop 5 q) of
                    Inl e \<Rightarrow> Inl e
                  | Inr complete \<Rightarrow>
                      (let all_jobs = map (\<lambda>j. job_id (hd (split_spaces j))) (drop 5 q);
                           jobs1 = [j \<leftarrow> jobs. j \<in> set all_jobs];
                           jobs2 = [j \<leftarrow> jobs1. j \<notin> set complete]
                       in Inr jobs2))))"

text \<open>
  The torque loop. \<open>c\<close> is set to 0 at the top of every pass, as in the source, so the test
  \<open>c == 5\<close> of the handler reads 0.
\<close>

fun torque_loop :: "reply list \<Rightarrow> string list \<Rightarrow> (unit, string list) outcome \<times> event list" where
  "torque_loop [] jobs = (Running jobs, [])"
| "torque_loop (r # rs) jobs =
     (let c = (0::nat) in
      case r of
        Failed \<Rightarrow>
          if c = 5 then (Raised CalledProcessError, [Exec qstat_args])
          else emit [Exec qstat_args, Sleep 2] (torque_loop rs jobs)
      | Out out \<Rightarrow>
          (case torque_poll out jobs of
             Inl e \<Rightarrow> (Raised e, [Exec qstat_args])
           | Inr jobs' \<Rightarrow>
               if length jobs' = 0 then (Returned (), [Exec qstat_args])
               else emit [Exec qstat_args, Sleep 2] (torque_loop rs jobs')))"

text \<open>
  One pass of the slurm loop. \<open>q\<close> is the whole output split at commas, so \<open>i[0]\<close> and
  \<open>i[1]\<close> are the first two characters of a piece; a piece shorter than two characters
  raises IndexError at \<open>i[1]\<close>.
\<close>

definition slurm_poll :: "string \<Rightarrow> string list \<Rightarrow> error + string list" where
  "slurm_poll out jobs =
     (let q = split_on CHR '','' (rstrip out) in
      if \<not> list_all (\<lambda>i. 1 < length i) q then Inl IndexError
      else
        (let complete = [[i ! 0]. i \<leftarrow> q, [i ! 1] = ''CD''];
             failed = [[i ! 0]. i \<leftarrow> q, [i ! 1] = ''F''];
             all_jobs = [[i ! 0]. i \<leftarrow> q];
             jobs1 = [i \<leftarrow> jobs. i \<notin> set all_jobs];
             jobs2 = [i \<leftarrow> jobs1. i \<notin> set complete];
             jobs3 = [i \<leftarrow> jobs2. i \<notin> set failed]
         in Inr jobs3))"

fun slurm_loop :: "reply list \<Rightarrow> string list \<Rightarrow> (unit, string list) outcome \<times> event list" where
  "slurm_loop [] jobs = (Running jobs, [])"
| "slurm_loop (r # rs) jobs =
     (case r of
        Failed \<Rightarrow> (Raised CalledProcessError, [Exec squeue_args])
      | Out out \<Rightarrow>
          (case slurm_poll out jobs of
             Inl e \<Rightarrow> (Raised e, [Exec squeue_args])
           | Inr jobs' \<Rightarrow>
               if length jobs' = 0 then (Returned (), [Exec squeue_args])
               else emit [Exec squeue_args, Sleep 2] (slurm_loop rs jobs')))"

fun wait_normal :: "atom list \<Rightarrow> (unit, string list) outcome \<times> event list" where
  "wait_normal [] = (Returned (), [])"
| "wait_normal (AsyncV a # jobs) = emit [Join a] (wait_normal jobs)"
| "wait_normal (job # jobs) = (Raised ClusterError, [])"

definition wait :: "state \<Rightarrow> reply list \<Rightarrow> arg \<Rightarrow> (unit, string list) outcome \<times> event list" where
  "wait st replies jobs_arg =
     (case check_queue st of
        Inl e \<Rightarrow> (Raised e, [])
      | Inr ok \<Rightarrow>
          (let jobs = (case jobs_arg of ListOf js \<Rightarrow> js | TupleOf js \<Rightarrow> js | One j \<Rightarrow> [j]) in
           if \<not> list_all is_job jobs then (Raised ClusterError, [])
           else if QUEUE st = ''normal'' then wait_normal jobs
           else if QUEUE st = ''torque'' then
             emit [Sleep 5] (torque_loop replies (map str_atom jobs))
           else if QUEUE st = ''slurm'' then
             emit [Sleep 2] (slurm_loop replies (map str_atom jobs))
           else (Returned (), [])))"

subsection \<open>Submitting\<close>

text \<open>
  The block \<open>if dependencies:\<close> of \<open>submit_file\<close>: afterwards \<open>dependencies\<close> is a list of
  strings that is not empty (\<open>Some\<close>), or still the false value it was (\<open>None\<close>).
\<close>

fun is_str_or_int :: "atom \<Rightarrow> bool" where
  "is_str_or_int (StrV s) = True"
| "is_str_or_int (IntV i) = True"
| "is_str_or_int a = False"

definition check_dependencies :: "arg \<Rightarrow> error + string list option" where
  "check_dependencies dependencies =
     (if truthy dependencies then
        (let deps = (case dependencies of
                       One a \<Rightarrow> if is_str_or_int a then ListOf [a] else dependencies
                     | other \<Rightarrow> dependencies)
         in case deps of
              One a \<Rightarrow> Inl Exception
            | ListOf xs \<Rightarrow> Inr (Some (map str_atom xs))
            | TupleOf xs \<Rightarrow> Inr (Some (map str_atom xs)))
      else Inr None)"

text \<open>
  The loop \<open>Try to submit job 5 times\<close>, which the slurm and the torque branch both have;
  they differ in \<open>args\<close> and in how the job number is read from the output (\<open>parse\<close>).
\<close>

fun submit_loop :: "string list \<Rightarrow> (string \<Rightarrow> error + int) \<Rightarrow> reply list \<Rightarrow> nat
                    \<Rightarrow> (int, nat) outcome \<times> event list" where
  "submit_loop args parse [] count = (Running count, [])"
| "submit_loop args parse (r # rs) count =
     (case r of
        Out out \<Rightarrow>
          (case parse out of
             Inl e \<Rightarrow> (Raised e, [Exec args])
           | Inr job \<Rightarrow> (Returned job, [Exec args]))
      | Failed \<Rightarrow>
          if count = 5 then (Raised CalledProcessError, [Exec args])
          else emit [Exec args, Sleep 1] (submit_loop args parse rs (count + 1)))"

definition sbatch_job :: "string \<Rightarrow> error + int" where
  "sbatch_job out = py_int (last (split_on CHR '' '' (rstrip out)))"

definition qsub_job :: "string \<Rightarrow> error + int" where
  "qsub_job out = py_int (hd (split_on CHR ''.'' (rstrip out)))"

definition sbatch_args :: "string list option \<Rightarrow> string \<Rightarrow> string list" where
  "sbatch_args dependencies script_file =
     (case dependencies of
        Some deps \<Rightarrow> [''sbatch'', ''--dependency=afterok:'' @ join_with '':'' deps, script_file]
      | None \<Rightarrow> [''sbatch'', script_file])"

definition qsub_args :: "string list option \<Rightarrow> string \<Rightarrow> string list" where
  "qsub_args dependencies script_file =
     (case dependencies of
        Some deps \<Rightarrow>
          [''qsub'', ''-W depend='' @ join_with '','' (map (\<lambda>d. ''afterok:'' @ d) deps), script_file]
      | None \<Rightarrow> [''qsub'', script_file])"

definition lift_job :: "state \<Rightarrow> (int, nat) outcome \<times> event list
                        \<Rightarrow> (atom \<times> state, nat) outcome \<times> event list" where
  "lift_job st r =
     (case fst r of
        Returned job \<Rightarrow> (Returned (IntV job, st), snd r)
      | Raised e \<Rightarrow> (Raised e, snd r)
      | Running count \<Rightarrow> (Running count, snd r))"

definition submit_file :: "state \<Rightarrow> reply list \<Rightarrow> string \<Rightarrow> atom \<Rightarrow> arg \<Rightarrow> nat option
                           \<Rightarrow> (atom \<times> state, nat) outcome \<times> event list" where
  "submit_file st replies script_file name dependencies threads =
     (case check_queue st of
        Inl e \<Rightarrow> (Raised e, [])
      | Inr ok \<Rightarrow>
          (let name = str_atom name in
           case check_dependencies dependencies of
             Inl e \<Rightarrow> (Raised e, [])
           | Inr deps \<Rightarrow>
               if QUEUE st = ''slurm'' then
                 lift_job st (submit_loop (sbatch_args deps script_file) sbatch_job replies 0)
               else if QUEUE st = ''torque'' then
                 lift_job st (submit_loop (qsub_args deps script_file) qsub_job replies 0)
               else if QUEUE st = ''normal'' then
                 (let size = (case threads of None \<Rightarrow> None
                              | Some n \<Rightarrow> if n = 0 then None else Some n);
                      created = (POOL st = None);
                      p = (case POOL st of
                             None \<Rightarrow> \<lparr>processes = size, submitted = []\<rparr>
                           | Some p \<Rightarrow> p);
                      command = ''bash '' @ script_file;
                      job = ApplyResult (length (submitted p)) command
                              (name @ ''.cluster.out'') (name @ ''.cluster.err'');
                      st' = st\<lparr>POOL := Some (p\<lparr>submitted := submitted p @ [job]\<rparr>)\<rparr>
                  in (Returned (AsyncV job, st'),
                      (if created then [NewPool size] else [])
                      @ [ApplyAsync command (name @ ''.cluster.out'') (name @ ''.cluster.err'')]))
               else (Returned (NoneV, st), [])))"

subsection \<open>Job file generation\<close>

datatype modules_arg = ModStr string | ModList "string list"

definition usedir_of :: "string \<Rightarrow> string option \<Rightarrow> string" where
  "usedir_of cwd path =
     (case path of
        None \<Rightarrow> abspath cwd ''.''
      | Some p \<Rightarrow> if p = [] then abspath cwd ''.'' else abspath cwd p)"

definition preamble :: "string \<Rightarrow> string \<Rightarrow> string" where
  \<open>preamble usedir name =
     dedent (''        cd '' @ usedir @ ''\<newline>        date +'%d-%H:%M:%S\'\<newline>        echo "Running ''
             @ name @ ''"\<newline>        '')\<close>

definition precmd :: "string list \<Rightarrow> string \<Rightarrow> string \<Rightarrow> string" where
  "precmd modules usedir name =
     foldl (\<lambda>pre m. pre @ ''module load '' @ m @ ''\<newline>'') [] modules @ preamble usedir name"

definition pstcmd :: string where
  \<open>pstcmd =
     dedent ''        exitcode=$?\<newline>        echo Done\<newline>        date +'%d-%H:%M:%S\'\<newline>        if [[ $exitcode != 0 ]]; then\<newline>            echo Exited with code: $? >&2\<newline>        fi\<newline>        ''\<close>

text \<open>
  The lines written to the \<open>.cluster.sbatch\<close> file, and the \<open>#PBS\<close> lines of the
  \<open>.cluster.qsub\<close> file. An option that is \<open>None\<close>, empty or zero is false in its \<open>if\<close>.
\<close>

definition option_line :: "string \<Rightarrow> string option \<Rightarrow> string \<Rightarrow> string" where
  "option_line before opt after =
     (case opt of None \<Rightarrow> [] | Some v \<Rightarrow> if v = [] then [] else before @ v @ after)"

definition mem_line :: "string \<Rightarrow> int option \<Rightarrow> string \<Rightarrow> string" where
  "mem_line before mem after =
     (case mem of None \<Rightarrow> [] | Some m \<Rightarrow> if m = 0 then [] else before @ str_int m @ after)"

definition sbatch_lines :: "string option \<Rightarrow> int \<Rightarrow> string option \<Rightarrow> int option \<Rightarrow> string \<Rightarrow> string
                            \<Rightarrow> string" where
  "sbatch_lines partn cores limit mem name usedir =
     ''#!/bin/bash\<newline>''
     @ option_line ''#SBATCH -p '' partn ''\<newline>''
     @ ''#SBATCH --ntasks 1\<newline>''
     @ ''#SBATCH --cpus-per-task '' @ str_int cores @ ''\<newline>''
     @ option_line ''#SBATCH --time='' limit ''\<newline>''
     @ mem_line ''#SBATCH --mem='' mem ''\<newline>''
     @ ''#SBATCH -o '' @ name @ ''.cluster.out\<newline>''
     @ ''#SBATCH -e '' @ name @ ''.cluster.err\<newline>''
     @ ''cd '' @ usedir @ ''\<newline>''
     @ ''srun bash '' @ path_join usedir name @ ''.script\<newline>''"

definition qsub_lines :: "string option \<Rightarrow> int \<Rightarrow> string option \<Rightarrow> int option \<Rightarrow> string \<Rightarrow> string" where
  "qsub_lines partn cores limit mem name =
     option_line ''#PBS -q '' partn ''\<newline>''
     @ ''#PBS -l nodes=1:ppn='' @ str_int cores @ ''\<newline>''
     @ option_line ''#PBS -l walltime='' limit ''\<newline>''
     @ mem_line ''#PBS mem='' mem ''MB\<newline>''
     @ ''#PBS -o '' @ name @ ''.cluster.out\<newline>''
     @ ''#PBS -e '' @ name @ ''.cluster.err\<newline>\<newline>''"

definition make_job_file :: "state \<Rightarrow> string \<Rightarrow> string \<Rightarrow> string \<Rightarrow> string option \<Rightarrow> int option
                             \<Rightarrow> int option \<Rightarrow> string option \<Rightarrow> modules_arg \<Rightarrow> string option
                             \<Rightarrow> (error + string) \<times> event list" where
  "make_job_file st cwd command name limit cores mem partn modules path =
     (case check_queue st of
        Inl e \<Rightarrow> (Inl e, [])
      | Inr ok \<Rightarrow>
          (let cores = (case cores of None \<Rightarrow> 1 | Some c \<Rightarrow> if c = 0 then 1 else c);
               modules = (case modules of ModStr m \<Rightarrow> [m] | ModList ms \<Rightarrow> ms);
               usedir = usedir_of cwd path;
               pre = precmd modules usedir name
           in if QUEUE st = ''slurm'' then
                (let scrpt = path_join usedir (name @ ''.cluster.sbatch'') in
                 (Inr scrpt,
                  [Write scrpt (sbatch_lines partn cores limit mem name usedir),
                   Write (path_join usedir (name @ ''.script''))
                     (''#!/bin/bash\<newline>''
                      @ ''mkdir -p $LOCAL_SCRATCH\<newline>''
                      @ pre
                      @ command @ ''\<newline>''
                      @ pstcmd)]))
              else if QUEUE st = ''torque'' then
                (let scrpt = path_join usedir (name @ ''.cluster.qsub'') in
                 (Inr scrpt,
                  [Write scrpt
                     (''#!/bin/bash\<newline>''
                      @ qsub_lines partn cores limit mem name
                      @ ''mkdir -p $LOCAL_SCRATCH\<newline>''
                      @ pre
                      @ command @ ''\<newline>''
                      @ pstcmd)]))
              else if QUEUE st = ''normal'' then
                (let scrpt = path_join usedir (name @ ''.cluster'') in
                 (Inr scrpt,
                  [Write scrpt
                     (''#!/bin/bash\<newline>''
                      @ pre
                      @ command @ ''\<newline>''
                      @ pstcmd)]))
              else (Inl UnboundLocalError, [])))"

text \<open>
  \<open>submit\<close>: in the cluster modes every option reaches \<open>make_job_file\<close>; in normal mode
  only \<open>command\<close> and \<open>name\<close> do, the rest keeps the defaults of \<open>make_job_file\<close>.
\<close>

definition submit :: "state \<Rightarrow> string \<Rightarrow> reply list \<Rightarrow> string \<Rightarrow> string \<Rightarrow> nat option \<Rightarrow> string option
                      \<Rightarrow> int option \<Rightarrow> int option \<Rightarrow> string option \<Rightarrow> modules_arg \<Rightarrow> string option
                      \<Rightarrow> arg \<Rightarrow> (atom \<times> state, nat) outcome \<times> event list" where
  "submit st cwd replies command name threads limit cores mem partn modules path dependencies =
     (case check_queue st of
        Inl e \<Rightarrow> (Raised e, [])
      | Inr ok \<Rightarrow>
          if QUEUE st = ''slurm'' \<or> QUEUE st = ''torque'' then
            (case make_job_file st cwd command name limit cores mem partn modules path of
               (Inr script, written) \<Rightarrow>
                 emit written (submit_file st replies script NoneV dependencies None)
             | (Inl e, written) \<Rightarrow> (Raised e, written))
          else if QUEUE st = ''normal'' then
            (case make_job_file st cwd command name None (Some 1) None None (ModList []) None of
               (Inr script, written) \<Rightarrow>
                 emit written (submit_file st replies script (StrV name) (One NoneV) threads)
             | (Inl e, written) \<Rightarrow> (Raised e, written))
          else (Returned (NoneV, st), []))"

subsection \<open>Cleaning\<close>

text \<open>
  The file system as \<open>clean\<close> sees it: for the absolute path of a directory, the names in it
  in the order \<open>os.listdir\<close> gives them, each a file or a directory. \<open>os.path.isfile(i)\<close> and
  \<open>os.remove(f)\<close> get a bare name, which the system resolves in the current directory.
\<close>

datatype node = File | Dir

type_synonym filesystem = "string \<Rightarrow> (string \<times> node) list option"

definition isfile :: "filesystem \<Rightarrow> string \<Rightarrow> string \<Rightarrow> bool" where
  "isfile fs cwd i = (case fs cwd of None \<Rightarrow> False | Some entries \<Rightarrow> map_of entries i = Some File)"

definition remove :: "filesystem \<Rightarrow> string \<Rightarrow> string \<Rightarrow> error + filesystem" where
  "remove fs cwd f =
     (if isfile fs cwd f
      then Inr (fs(cwd := map_option (filter (\<lambda>entry. fst entry \<noteq> f)) (fs cwd)))
      else Inl OSError)"

definition extensions :: "state \<Rightarrow> string list" where
  "extensions st =
     (if QUEUE st = ''normal'' then [''.cluster.err'', ''.cluster.out''] @ [''.cluster'']
      else if QUEUE st = ''slurm'' then
        [''.cluster.err'', ''.cluster.out''] @ [''.cluster.sbatch'', ''.cluster.script'']
      else if QUEUE st = ''torque'' then [''.cluster.err'', ''.cluster.out''] @ [''.cluster.qsub'']
      else [''.cluster.err'', ''.cluster.out''])"

fun clean_file :: "string \<Rightarrow> string \<Rightarrow> string list \<Rightarrow> filesystem \<times> string list
                   \<Rightarrow> error + filesystem \<times> string list" where
  "clean_file cwd f [] acc = Inr acc"
| "clean_file cwd f (extension # exts) (fs, deleted) =
     (if endswith f extension then
        (case remove fs cwd f of
           Inl e \<Rightarrow> Inl e
         | Inr fs' \<Rightarrow> clean_file cwd f exts (fs', deleted @ [f]))
      else clean_file cwd f exts (fs, deleted))"

fun clean_files :: "string \<Rightarrow> string list \<Rightarrow> string list \<Rightarrow> filesystem \<times> string list
                    \<Rightarrow> error + filesystem \<times> string list" where
  "clean_files cwd [] exts acc = Inr acc"
| "clean_files cwd (f # files) exts acc =
     (case clean_file cwd f exts acc of
        Inl e \<Rightarrow> Inl e
      | Inr acc' \<Rightarrow> clean_files cwd files exts acc')"

definition clean :: "state \<Rightarrow> string \<Rightarrow> filesystem \<Rightarrow> string
                     \<Rightarrow> (error + string list \<times> filesystem) \<times> event list" where
  "clean st cwd fs directory =
     (case check_queue st of
        Inl e \<Rightarrow> (Inl e, [])
      | Inr ok \<Rightarrow>
          (case fs (abspath cwd directory) of
             None \<Rightarrow> (Inl OSError, [])
           | Some entries \<Rightarrow>
               (let files = [i \<leftarrow> map fst entries. isfile fs cwd i] in
                if files = [] then (Inr ([], fs), [Log ''No files found.'' ''debug''])
                else
                  (case clean_files cwd files (extensions st) (fs, []) of
                     Inl e \<Rightarrow> (Inl e, [])
                   | Inr (fs', deleted) \<Rightarrow> (Inr (deleted, fs'), [])))))"


section \<open>Example outputs of the schedulers' tools\<close>

text \<open>
  \<open>qstat -a\<close> prints an empty line, the server, two header lines and a rule before the
  jobs, one job per line. \<open>squeue -h -o "'%A,%t'"\<close> is started without a shell, so the
  quotes of the format reach \<open>squeue\<close> and come back in every line.
\<close>

definition qstat_output :: "string list \<Rightarrow> string" where
  "qstat_output rows =
     ''\<newline>''
     @ ''master.cluster: \<newline>''
     @ ''                                                                   Req'd    Req'd      Elap\<newline>''
     @ ''Job ID               Username    Queue    Jobname    SessID  NDS   TSK   Memory   Time    S   Time\<newline>''
     @ ''-------------------- ----------- -------- ---------- ------ ----- ------ ------ --------- - ---------\<newline>''
     @ concat (map (\<lambda>row. row @ ''\<newline>'') rows)"

definition qstat_row :: "string \<Rightarrow> string \<Rightarrow> string" where
  "qstat_row job st =
     job @ ''.master.cluster  user        batch    job1         4242     1      1    --   01:00:00 ''
     @ st @ ''  00:00:07''"

definition squeue_output :: "(string \<times> string) list \<Rightarrow> string" where
  "squeue_output listing =
     concat (map (\<lambda>(job, st). [CHR 0x27] @ job @ '','' @ st @ [CHR 0x27] @ ''\<newline>'') listing)"

text \<open>
  What a \<open>qstat -a\<close> output says about a job, in the words of the torque branch: the rows
  are the lines from the sixth on, a row names the job by its first field up to the first
  dot, and its state is its tenth field.
\<close>

definition torque_rows :: "string \<Rightarrow> string list" where
  "torque_rows out = drop 5 (split_on CHR 0x0A (rstrip out))"

definition row_id :: "string \<Rightarrow> string" where
  "row_id row = job_id (hd (split_spaces row))"

definition row_state :: "string \<Rightarrow> error + string" where
  "row_state row = index (split_spaces row) 9"

definition torque_listed :: "string \<Rightarrow> string \<Rightarrow> bool" where
  "torque_listed out j = (j \<in> set (map row_id (torque_rows out)))"

definition torque_completed :: "string \<Rightarrow> string \<Rightarrow> bool" where
  "torque_completed out j =
     (j \<in> set (map row_id [row \<leftarrow> torque_rows out. row_state row = Inr ''C'']))"

text \<open>
  Two directories for \<open>clean\<close>: the current one, \<open>/home/u\<close>, and \<open>/data/run1\<close>.
\<close>

definition two_directories :: "(string \<times> node) list \<Rightarrow> (string \<times> node) list \<Rightarrow> filesystem" where
  "two_directories home run1 =
     (\<lambda>d. if d = ''/home/u'' then Some home
          else if d = ''/data/run1'' then Some run1
          else None)"

definition torque :: state where
  "torque = \<lparr>QUEUE = ''torque'', POOL = None\<rparr>"

definition slurm :: state where
  "slurm = \<lparr>QUEUE = ''slurm'', POOL = None\<rparr>"

section \<open>Properties\<close>

subsection \<open>Detection without a scheduler\<close>

text \<open>
  C1. With neither \<open>sbatch\<close> nor \<open>qsub\<close> on the path, \<open>get_cluster_environment\<close> records
  \<open>'local'\<close>, which is not in \<open>ALLOWED_QUEUES\<close>: \<open>check_queue\<close> rejects it, and so
  \<open>wait\<close>, \<open>submit\<close>, \<open>submit_file\<close>, \<open>make_job_file\<close> and \<open>clean\<close> all raise ClusterError
  before doing anything, whatever their arguments.
\<close>

theorem detect_without_scheduler_rejected:
  "QUEUE (snd (fst (get_cluster_environment (\<lambda>tool. False) initial))) = ''local''
   \<and> check_queue (snd (fst (get_cluster_environment (\<lambda>tool. False) initial))) = Inl ClusterError
   \<and> wait (snd (fst (get_cluster_environment (\<lambda>tool. False) initial))) replies jobs
       = (Raised ClusterError, [])
   \<and> submit (snd (fst (get_cluster_environment (\<lambda>tool. False) initial))) cwd replies command name
         threads limit cores mem partn modules path dependencies
       = (Raised ClusterError, [])
   \<and> submit_file (snd (fst (get_cluster_environment (\<lambda>tool. False) initial))) replies script
         job_name dependencies threads
       = (Raised ClusterError, [])
   \<and> make_job_file (snd (fst (get_cluster_environment (\<lambda>tool. False) initial))) cwd command name
         limit cores mem partn modules path
       = (Inl ClusterError, [])
   \<and> clean (snd (fst (get_cluster_environment (\<lambda>tool. False) initial))) cwd fs directory
       = (Inl ClusterError, [])"
proof -
  have q: "snd (fst (get_cluster_environment (\<lambda>tool. False) initial))
             = \<lparr>QUEUE = ''local'', POOL = None\<rparr>"
    by (simp add: get_cluster_environment_def initial_def Let_def)
  have c: "check_queue \<lparr>QUEUE = ''local'', POOL = None\<rparr> = Inl ClusterError"
    by (simp add: check_queue_def ALLOWED_QUEUES_def)
  show ?thesis
    unfolding q by (simp add: c wait_def submit_def submit_file_def make_job_file_def clean_def)
qed

subsection \<open>Submission retries\<close>

lemma submit_loop_six_failures:
  "submit_loop args parse (replicate (6 + n) Failed) 0
     = (Raised CalledProcessError,
        [Exec args, Sleep 1, Exec args, Sleep 1, Exec args, Sleep 1, Exec args, Sleep 1,
         Exec args, Sleep 1, Exec args])"
proof -
  have "replicate (6 + n) Failed
          = Failed # Failed # Failed # Failed # Failed # Failed # replicate n Failed"
    by (simp add: eval_nat_numeral)
  then show ?thesis by (simp add: emit_def)
qed

lemma submit_loop_five_failures:
  "fst (submit_loop args parse (replicate 5 Failed) 0) = Running 5"
  by (simp add: eval_nat_numeral emit_def)

text \<open>
  C4. When the submission tool exits non-zero on every call, \<open>submit_file\<close> calls it six
  times, not five: the handler re-raises when \<open>count\<close> is 5, and \<open>count\<close> is 0 at the first
  failure. There are five pauses of one second. After five failed calls nothing has been
  raised yet. The same holds for \<open>sbatch\<close> and for \<open>qsub\<close>.
\<close>

theorem submit_file_always_failing_six_calls:
  "submit_file \<lparr>QUEUE = ''slurm'', POOL = p\<rparr> (replicate (6 + n) Failed) script name (One NoneV) threads
     = (Raised CalledProcessError,
        [Exec [''sbatch'', script], Sleep 1, Exec [''sbatch'', script], Sleep 1,
         Exec [''sbatch'', script], Sleep 1, Exec [''sbatch'', script], Sleep 1,
         Exec [''sbatch'', script], Sleep 1, Exec [''sbatch'', script]])
   \<and> submit_file \<lparr>QUEUE = ''torque'', POOL = p\<rparr> (replicate (6 + n) Failed) script name (One NoneV) threads
     = (Raised CalledProcessError,
        [Exec [''qsub'', script], Sleep 1, Exec [''qsub'', script], Sleep 1,
         Exec [''qsub'', script], Sleep 1, Exec [''qsub'', script], Sleep 1,
         Exec [''qsub'', script], Sleep 1, Exec [''qsub'', script]])
   \<and> fst (submit_file \<lparr>QUEUE = ''slurm'', POOL = p\<rparr> (replicate 5 Failed) script name (One NoneV) threads)
     = Running 5
   \<and> fst (submit_file \<lparr>QUEUE = ''torque'', POOL = p\<rparr> (replicate 5 Failed) script name (One NoneV) threads)
     = Running 5"
  by (simp add: submit_file_def check_queue_def ALLOWED_QUEUES_def check_dependencies_def
        lift_job_def submit_loop_six_failures submit_loop_five_failures
        sbatch_args_def qsub_args_def)

subsection \<open>A single handle or dependency\<close>

text \<open>
  C10, the claim as stated fails: the single dependency \<open>0\<close> is false in
  \<open>if dependencies:\<close> and is dropped, while the list \<open>[0]\<close> is passed to \<open>sbatch\<close>.
\<close>

theorem single_zero_dependency_dropped:
  "snd (submit_file slurm [Out ''Submitted batch job 8\<newline>''] ''a.cluster.sbatch'' NoneV
          (One (IntV 0)) None)
     = [Exec [''sbatch'', ''a.cluster.sbatch'']]
   \<and> snd (submit_file slurm [Out ''Submitted batch job 8\<newline>''] ''a.cluster.sbatch'' NoneV
          (ListOf [IntV 0]) None)
     = [Exec [''sbatch'', ''--dependency=afterok:0'', ''a.cluster.sbatch'']]"
  by code_simp

text \<open>
  C10, amended. \<open>wait\<close> treats a single handle as the list of that handle. \<open>submit_file\<close>
  treats a single dependency that is a non-empty string or a non-zero integer as the
  list of that dependency.
\<close>

theorem single_handle_is_one_element_list:
  "wait st replies (One job) = wait st replies (ListOf [job])
   \<and> (truthy_atom dep \<and> is_str_or_int dep \<longrightarrow>
        submit_file st outputs script name (One dep) threads
          = submit_file st outputs script name (ListOf [dep]) threads)"
proof -
  have w: "wait st replies (One job) = wait st replies (ListOf [job])"
    by (cases "check_queue st") (simp_all add: wait_def)
  have d: "check_dependencies (One dep) = check_dependencies (ListOf [dep])"
    if "truthy_atom dep" "is_str_or_int dep"
    using that by (cases dep) (simp_all add: check_dependencies_def)
  have "submit_file st outputs script name (One dep) threads
          = submit_file st outputs script name (ListOf [dep]) threads"
    if "truthy_atom dep" "is_str_or_int dep"
    unfolding submit_file_def d [OF that] by (rule refl)
  with w show ?thesis by blast
qed

theorem single_handle_is_one_element_list_witness:
  "wait slurm [Out (squeue_output [(''R'', ''CD'')])] (One (StrV ''R''))
     = wait slurm [Out (squeue_output [(''R'', ''CD'')])] (ListOf [StrV ''R''])
   \<and> truthy_atom (IntV 5) \<and> is_str_or_int (IntV 5)
   \<and> submit_file slurm [Out ''Submitted batch job 8\<newline>''] ''a.cluster.sbatch'' NoneV (One (IntV 5)) None
     = submit_file slurm [Out ''Submitted batch job 8\<newline>''] ''a.cluster.sbatch'' NoneV (ListOf [IntV 5]) None"
  using single_handle_is_one_element_list
          [where st = slurm and replies = "[Out (squeue_output [(''R'', ''CD'')])]"
             and job = "StrV ''R''" and dep = "IntV 5"
             and outputs = "[Out ''Submitted batch job 8\<newline>'']"
             and script = "''a.cluster.sbatch''" and name = NoneV and threads = None]
  by simp

subsection \<open>Waiting on slurm\<close>

text \<open>
  The slurm branch compares a tracked job with single characters only. A pass that raises
  nothing keeps every tracked job whose identifier is not one character long, whatever
  \<open>squeue\<close> prints, so the loop never returns while it tracks such jobs.
\<close>

lemma slurm_poll_long_ids:
  assumes "slurm_poll out jobs = Inr jobs'" and "list_all (\<lambda>j. length j \<noteq> 1) jobs"
  shows "jobs' = jobs"
proof -
  let ?q = "split_on CHR '','' (rstrip out)"
  have keep: "filter (\<lambda>j. j \<notin> set [[i ! n]. i \<leftarrow> ?q, P i]) js = js"
    if "list_all (\<lambda>j. length j \<noteq> 1) js" for js n P
    using that by (auto simp: filter_id_conv list_all_iff)
  from assms(1) have "jobs' =
      [i \<leftarrow> [i \<leftarrow> [i \<leftarrow> jobs. i \<notin> set [[i ! 0]. i \<leftarrow> ?q, True]].
                 i \<notin> set [[i ! 0]. i \<leftarrow> ?q, [i ! 1] = ''CD'']].
          i \<notin> set [[i ! 0]. i \<leftarrow> ?q, [i ! 1] = ''F'']]"
    by (simp add: slurm_poll_def Let_def split: if_splits)
  then show ?thesis
    by (simp only: keep [OF assms(2)])
qed

lemma slurm_loop_long_ids:
  assumes "jobs \<noteq> []" and "list_all (\<lambda>j. length j \<noteq> 1) jobs"
  shows "fst (slurm_loop replies jobs) \<noteq> Returned ()"
  using assms
proof (induction replies)
  case Nil
  then show ?case by simp
next
  case (Cons r replies)
  show ?case
  proof (cases r)
    case Failed
    then show ?thesis by simp
  next
    case (Out out)
    show ?thesis
    proof (cases "slurm_poll out jobs")
      case (Inl e)
      with Out show ?thesis by simp
    next
      case (Inr jobs')
      with slurm_poll_long_ids [OF Inr Cons.prems(2)] Out Cons show ?thesis
        by (simp add: emit_def)
    qed
  qed
qed

text \<open>
  C2. \<open>squeue\<close> lists job 100 as running and job 101 as completed, then only job 100, as
  completed. The slurm branch splits the whole output at commas and compares single
  characters, so it finds no job completed, and it keeps the jobs that are not in the
  listing instead of dropping them: both jobs stay tracked after every pass, with or
  without the quotes of the format in the output, and \<open>wait\<close> is still in its loop. When
  \<open>squeue\<close> lists nothing at all, \<open>wait\<close> raises IndexError.
\<close>

theorem slurm_wait_keeps_completed_jobs:
  "slurm_poll (squeue_output [(''100'', ''R''), (''101'', ''CD'')]) [''100'', ''101'']
     = Inr [''100'', ''101'']
   \<and> slurm_poll ''100,R\<newline>101,CD\<newline>'' [''100'', ''101''] = Inr [''100'', ''101'']
   \<and> wait slurm
        [Out (squeue_output [(''100'', ''R''), (''101'', ''CD'')]),
         Out (squeue_output [(''100'', ''CD'')])]
        (ListOf [IntV 100, IntV 101])
     = (Running [''100'', ''101''],
        [Sleep 2, Exec squeue_args, Sleep 2, Exec squeue_args, Sleep 2])
   \<and> fst (wait slurm [Out (squeue_output [])] (ListOf [IntV 100, IntV 101])) = Raised IndexError"
  by code_simp

subsection \<open>Waiting on torque\<close>

lemma torque_complete_rows:
  "torque_complete rows = Inr complete
   \<Longrightarrow> complete = map row_id [row \<leftarrow> rows. row_state row = Inr ''C'']"
proof (induction rows arbitrary: complete)
  case Nil
  then show ?case by simp
next
  case (Cons j rows)
  from Cons.prems obtain s rest where
    s: "index (split_spaces j) 9 = Inr s" and rest: "torque_complete rows = Inr rest"
    and c: "complete = (if s = ''C'' then job_id (hd (split_spaces j)) # rest else rest)"
    by (auto simp: Let_def split: sum.splits)
  from Cons.IH [OF rest] s c show ?case
    by (simp add: row_id_def row_state_def)
qed

text \<open>
  C3, the claim as stated fails: job 100 is tracked and \<open>qstat\<close> lists only job 101, as
  running. The pass drops job 100; and when \<open>qstat\<close> lists no job, \<open>wait\<close> returns.
\<close>

theorem torque_unlisted_job_dropped:
  "\<not> torque_listed (qstat_output [qstat_row ''101'' ''R'']) ''100''
   \<and> torque_poll (qstat_output [qstat_row ''101'' ''R'']) [''100'', ''101''] = Inr [''101'']
   \<and> wait torque [Out (qstat_output [])] (One (IntV 100))
       = (Returned (), [Sleep 5, Exec qstat_args])"
  by code_simp

text \<open>
  C3, amended. After a pass of the torque loop that raises nothing, the tracked jobs are
  those tracked before that \<open>qstat\<close> lists and does not list as completed, in the same
  order: a job that is not listed is dropped like a completed one.
\<close>

theorem torque_poll_keeps_listed_uncompleted:
  "torque_poll out jobs = Inr jobs'
   \<Longrightarrow> jobs' = [j \<leftarrow> jobs. torque_listed out j \<and> \<not> torque_completed out j]"
proof -
  assume p: "torque_poll out jobs = Inr jobs'"
  then obtain complete where
    c: "torque_complete (torque_rows out) = Inr complete"
    and j: "jobs' = [j \<leftarrow> [j \<leftarrow> jobs. j \<in> set (map row_id (torque_rows out))]. j \<notin> set complete]"
    by (auto simp: torque_poll_def torque_rows_def row_id_def Let_def
             split: sum.splits if_splits)
  from torque_complete_rows [OF c] j show ?thesis
    by (simp add: torque_listed_def torque_completed_def)
qed

theorem torque_poll_keeps_listed_uncompleted_witness:
  "torque_poll (qstat_output [qstat_row ''100'' ''C'', qstat_row ''101'' ''R''])
       [''100'', ''101'', ''102'']
     = Inr [''101'']
   \<and> [''101'']
     = [j \<leftarrow> [''100'', ''101'', ''102''].
          torque_listed (qstat_output [qstat_row ''100'' ''C'', qstat_row ''101'' ''R'']) j
          \<and> \<not> torque_completed
                (qstat_output [qstat_row ''100'' ''C'', qstat_row ''101'' ''R'']) j]"
proof -
  have p: "torque_poll (qstat_output [qstat_row ''100'' ''C'', qstat_row ''101'' ''R''])
             [''100'', ''101'', ''102''] = Inr [''101'']"
    by code_simp
  from p torque_poll_keeps_listed_uncompleted [OF p] show ?thesis by simp
qed

text \<open>
  C6, the claim as stated fails: the first \<open>qstat\<close> exits non-zero, the second lists job
  100 as completed. \<open>wait\<close> raises nothing: it pauses, asks again and returns.
\<close>

theorem torque_failed_query_not_raised:
  "wait torque [Failed, Out (qstat_output [qstat_row ''100'' ''C''])] (One (IntV 100))
     = (Returned (), [Sleep 5, Exec qstat_args, Sleep 2, Exec qstat_args])"
  by code_simp

text \<open>
  C6, amended. A \<open>qstat\<close> that exits non-zero during a pass of the torque loop is caught
  and the query is made again: as long as no more than four queries fail during the
  \<open>wait\<close>, each failure is followed by a pause of two seconds and a new query with the same
  tracked jobs, and \<open>wait\<close> comes to what it comes to without the failed queries. What
  happens from the fifth failed query on is not said here.
\<close>

theorem torque_failed_queries_retried:
  assumes "length [r \<leftarrow> Failed # replies. r = Failed] \<le> 4"
  shows "torque_loop (Failed # replies) tracked
           = emit [Exec qstat_args, Sleep 2] (torque_loop replies tracked)
         \<and> fst (torque_loop (Failed # replies) tracked)
           = fst (torque_loop [r \<leftarrow> replies. r \<noteq> Failed] tracked)
         \<and> (QUEUE st = ''torque'' \<longrightarrow>
              fst (wait st (Failed # replies) jobs)
                = fst (wait st [r \<leftarrow> replies. r \<noteq> Failed] jobs))"
proof -
  have skip: "fst (torque_loop rs js) = fst (torque_loop [r \<leftarrow> rs. r \<noteq> Failed] js)" for rs js
  proof (induction rs arbitrary: js)
    case Nil
    show ?case by simp
  next
    case (Cons r rs)
    show ?case
    proof (cases r)
      case Failed
      with Cons [of js] show ?thesis by (simp add: emit_def)
    next
      case (Out out)
      show ?thesis
      proof (cases "torque_poll out js")
        case (Inl e)
        with Out show ?thesis by simp
      next
        case (Inr js')
        with Out Cons [of js'] show ?thesis by (simp add: emit_def)
      qed
    qed
  qed
  have one: "torque_loop (Failed # replies) tracked
               = emit [Exec qstat_args, Sleep 2] (torque_loop replies tracked)"
    by simp
  have two: "fst (torque_loop (Failed # replies) tracked)
               = fst (torque_loop [r \<leftarrow> replies. r \<noteq> Failed] tracked)"
    using skip [of "Failed # replies" tracked] by simp
  have three: "fst (wait st (Failed # replies) jobs)
                 = fst (wait st [r \<leftarrow> replies. r \<noteq> Failed] jobs)"
    if "QUEUE st = ''torque''"
    using that skip [of "Failed # replies"]
    by (cases "check_queue st") (simp_all add: wait_def emit_def Let_def)
  from one two three show ?thesis by blast
qed

theorem torque_failed_queries_retried_witness:
  "length [r \<leftarrow> [Failed, Out (qstat_output [qstat_row ''7'' ''R'']), Failed,
                  Out (qstat_output [qstat_row ''7'' ''C''])]. r = Failed] \<le> 4
   \<and> QUEUE torque = ''torque''
   \<and> wait torque
        [Failed, Out (qstat_output [qstat_row ''7'' ''R'']), Failed,
         Out (qstat_output [qstat_row ''7'' ''C''])]
        (One (IntV 7))
     = (Returned (),
        [Sleep 5, Exec qstat_args, Sleep 2, Exec qstat_args, Sleep 2, Exec qstat_args, Sleep 2,
         Exec qstat_args])
   \<and> fst (wait torque
            [Out (qstat_output [qstat_row ''7'' ''R'']), Out (qstat_output [qstat_row ''7'' ''C''])]
            (One (IntV 7)))
     = Returned ()"
proof -
  let ?rest = "[Out (qstat_output [qstat_row ''7'' ''R'']), Failed,
                Out (qstat_output [qstat_row ''7'' ''C''])]"
  have n: "length [r \<leftarrow> Failed # ?rest. r = Failed] \<le> 4"
    by simp
  have q: "QUEUE torque = ''torque''"
    by (simp add: torque_def)
  have w: "wait torque (Failed # ?rest) (One (IntV 7))
             = (Returned (),
                [Sleep 5, Exec qstat_args, Sleep 2, Exec qstat_args, Sleep 2, Exec qstat_args,
                 Sleep 2, Exec qstat_args])"
    by code_simp
  from torque_failed_queries_retried [OF n, of "[]" torque "One (IntV 7)"] q w
  show ?thesis by simp
qed

subsection \<open>Facts about the library functions\<close>

lemma split_on_not_Nil: "split_on c s \<noteq> []"
  by (induction s) (auto split: list.splits)

lemma split_on_chars: "p \<in> set (split_on c s) \<Longrightarrow> set p \<subseteq> set s"
proof (induction s arbitrary: p)
  case Nil
  then show ?case by simp
next
  case (Cons x s)
  show ?case
  proof (cases "x = c")
    case True
    with Cons show ?thesis by auto
  next
    case False
    obtain q qs where q: "split_on c s = q # qs"
      using split_on_not_Nil [of c s] by (cases "split_on c s") auto
    with False Cons.prems have p: "p = x # q \<or> p \<in> set qs" by simp
    have "set q \<subseteq> set s" using Cons.IH [of q] q by simp
    moreover have "set r \<subseteq> set s" if "r \<in> set qs" for r
      using Cons.IH [of r] q that by simp
    ultimately show ?thesis using p by auto
  qed
qed

lemma norm_step_chars:
  "\<forall>x \<in> set acc. set x \<subseteq> S \<Longrightarrow> set part \<subseteq> S
   \<Longrightarrow> \<forall>x \<in> set (norm_step k acc part). set x \<subseteq> S"
  by (auto simp: norm_step_def dest: in_set_butlastD)

lemma foldl_norm_step_chars:
  "\<forall>x \<in> set acc. set x \<subseteq> S \<Longrightarrow> \<forall>x \<in> set parts. set x \<subseteq> S
   \<Longrightarrow> \<forall>x \<in> set (foldl (norm_step k) acc parts). set x \<subseteq> S"
proof (induction parts arbitrary: acc)
  case Nil
  then show ?case by simp
next
  case (Cons part parts)
  have "\<forall>x \<in> set (norm_step k acc part). set x \<subseteq> S"
    using Cons.prems by (intro norm_step_chars) auto
  with Cons show ?case by simp
qed

lemma join_with_chars:
  "\<forall>x \<in> set xs. set x \<subseteq> S \<Longrightarrow> set sep \<subseteq> S \<Longrightarrow> set (join_with sep xs) \<subseteq> S"
  by (induction sep xs rule: join_with.induct) auto

lemma normpath_chars: "set (normpath p) \<subseteq> set p \<union> {CHR ''/'', CHR ''.''}"
proof -
  let ?S = "set p \<union> {CHR ''/'', CHR ''.''}"
  have parts: "\<forall>x \<in> set (split_on CHR ''/'' p). set x \<subseteq> ?S"
    using split_on_chars [of _ "CHR ''/''" p] by auto
  have "\<forall>x \<in> set (foldl (norm_step k) [] (split_on CHR ''/'' p)). set x \<subseteq> ?S" for k
    using parts by (intro foldl_norm_step_chars) auto
  then have "set (join_with ''/'' (foldl (norm_step k) [] (split_on CHR ''/'' p))) \<subseteq> ?S" for k
    by (intro join_with_chars) auto
  then show ?thesis
    by (auto simp: normpath_def Let_def)
qed

lemma abspath_no_newline:
  assumes "CHR 0x0A \<notin> set cwd" and "CHR 0x0A \<notin> set p"
  shows "CHR 0x0A \<notin> set (abspath cwd p)"
proof -
  have "CHR 0x0A \<notin> set (path_join cwd p)"
    using assms by (auto simp: path_join_def)
  with assms(2) normpath_chars [of "path_join cwd p"] normpath_chars [of p]
  show ?thesis by (auto simp: abspath_def)
qed

lemma split_on_append:
  "c \<notin> set a \<Longrightarrow> split_on c (a @ b) = (a @ hd (split_on c b)) # tl (split_on c b)"
proof (induction a)
  case Nil
  then show ?case using split_on_not_Nil [of c b] by simp
next
  case (Cons x a)
  then show ?case by auto
qed

lemma split_on_append_sep:
  "c \<notin> set a \<Longrightarrow> split_on c (a @ c # b) = a # split_on c b"
  by (simp add: split_on_append)

lemma split_on_no_sep: "c \<notin> set a \<Longrightarrow> split_on c a = [a]"
  by (induction a) auto

lemma module_lines:
  "foldl (\<lambda>pre m. pre @ ''module load '' @ m @ ''\<newline>'') acc modules
     = acc @ concat (map (\<lambda>m. ''module load '' @ m @ ''\<newline>'') modules)"
  by (induction modules arbitrary: acc) simp_all

lemma pstcmd_flat:
  \<open>pstcmd = ''exitcode=$?\<newline>echo Done\<newline>date +'%d-%H:%M:%S\'\<newline>if [[ $exitcode != 0 ]]; then\<newline>    echo Exited with code: $? >&2\<newline>fi\<newline>''\<close>
  by code_simp

lemma preamble_flat:
  assumes "CHR 0x0A \<notin> set usedir" and "CHR 0x0A \<notin> set name"
  shows \<open>preamble usedir name =
     ''cd '' @ usedir @ ''\<newline>date +'%d-%H:%M:%S\'\<newline>echo "Running '' @ name @ ''"\<newline>''\<close>
proof -
  have t: \<open>''        cd '' @ usedir @ ''\<newline>        date +'%d-%H:%M:%S\'\<newline>        echo "Running ''
             @ name @ ''"\<newline>        ''
       = (''        cd '' @ usedir) @ CHR 0x0A # (''        date +'%d-%H:%M:%S'' @ [CHR 0x27]) @ CHR 0x0A #
         (''        echo "Running '' @ name @ ''"'') @ CHR 0x0A # ''        ''\<close>
    by simp
  have l: \<open>split_on CHR 0x0A (''        cd '' @ usedir @ ''\<newline>        date +'%d-%H:%M:%S\'\<newline>        echo "Running ''
             @ name @ ''"\<newline>        '')
       = [''        cd '' @ usedir, ''        date +'%d-%H:%M:%S'' @ [CHR 0x27], ''        echo "Running '' @ name @ ''"'', ''        '']\<close>
    unfolding t
    apply (subst split_on_append_sep, simp add: assms)
    apply (subst split_on_append_sep, simp)
    apply (subst split_on_append_sep, simp add: assms)
    apply (subst split_on_no_sep, simp)
    apply (rule refl)
    done
  show ?thesis
    unfolding preamble_def dedent_def l
    by (simp add: blank_def margin_step_def startswith_def)
qed

subsection \<open>Job files\<close>

text \<open>
  C5. For slurm with name \<open>job1\<close>, \<open>make_job_file\<close> writes \<open>job1.cluster.sbatch\<close> and, as
  the companion that \<open>srun\<close> starts, \<open>job1.script\<close>: the second file has no \<open>.cluster\<close> in
  its name, so it neither starts with \<open>job1.cluster\<close> nor ends with the suffix
  \<open>.cluster.script\<close> that \<open>clean\<close> removes in slurm mode.
\<close>

theorem slurm_script_file_name:
  \<open>make_job_file slurm ''/home/u'' ''echo hi'' ''job1'' None (Some 1) None None (ModList []) None
     = (Inr ''/home/u/job1.cluster.sbatch'',
        [Write ''/home/u/job1.cluster.sbatch''
           ''#!/bin/bash\<newline>#SBATCH --ntasks 1\<newline>#SBATCH --cpus-per-task 1\<newline>#SBATCH -o job1.cluster.out\<newline>#SBATCH -e job1.cluster.err\<newline>cd /home/u\<newline>srun bash /home/u/job1.script\<newline>'',
         Write ''/home/u/job1.script''
           ''#!/bin/bash\<newline>mkdir -p $LOCAL_SCRATCH\<newline>cd /home/u\<newline>date +'%d-%H:%M:%S\'\<newline>echo "Running job1"\<newline>echo hi\<newline>exitcode=$?\<newline>echo Done\<newline>date +'%d-%H:%M:%S\'\<newline>if [[ $exitcode != 0 ]]; then\<newline>    echo Exited with code: $? >&2\<newline>fi\<newline>''])
   \<and> \<not> startswith ''job1.script'' ''job1.cluster''
   \<and> \<not> endswith ''job1.script'' ''.cluster.script''\<close>
  by code_simp

text \<open>
  C8, the claim as stated fails: in normal mode, \<open>make_job_file\<close> given the modules
  \<open>gcc\<close> and \<open>R\<close> writes a \<open>module load\<close> line for each into the script.
\<close>

theorem local_job_file_with_modules:
  \<open>make_job_file initial ''/home/u'' ''echo hi'' ''job1'' None (Some 1) None None
       (ModList [''gcc'', ''R'']) None
     = (Inr ''/home/u/job1.cluster'',
        [Write ''/home/u/job1.cluster''
           ''#!/bin/bash\<newline>module load gcc\<newline>module load R\<newline>cd /home/u\<newline>date +'%d-%H:%M:%S\'\<newline>echo "Running job1"\<newline>echo hi\<newline>exitcode=$?\<newline>echo Done\<newline>date +'%d-%H:%M:%S\'\<newline>if [[ $exitcode != 0 ]]; then\<newline>    echo Exited with code: $? >&2\<newline>fi\<newline>''])\<close>
  by code_simp

text \<open>
  C8, amended. In all three modes \<open>make_job_file\<close> writes one \<open>module load\<close> line per
  module, in order, directly before the pre-amble of the script that holds the command.
  \<open>submit\<close> in normal mode does not hand its modules to \<open>make_job_file\<close>: the script it
  writes has the pre-amble directly after the first line, whatever the modules are.
\<close>

theorem module_lines_before_preamble:
  "snd (make_job_file \<lparr>QUEUE = ''slurm'', POOL = p\<rparr> cwd command name limit cores mem partn
          (ModList modules) path)
     = [Write (path_join (usedir_of cwd path) (name @ ''.cluster.sbatch''))
          (sbatch_lines partn (case cores of None \<Rightarrow> 1 | Some c \<Rightarrow> if c = 0 then 1 else c)
             limit mem name (usedir_of cwd path)),
        Write (path_join (usedir_of cwd path) (name @ ''.script''))
          (''#!/bin/bash\<newline>mkdir -p $LOCAL_SCRATCH\<newline>''
           @ concat (map (\<lambda>m. ''module load '' @ m @ ''\<newline>'') modules)
           @ preamble (usedir_of cwd path) name
           @ command @ ''\<newline>'' @ pstcmd)]
   \<and> snd (make_job_file \<lparr>QUEUE = ''torque'', POOL = p\<rparr> cwd command name limit cores mem partn
            (ModList modules) path)
     = [Write (path_join (usedir_of cwd path) (name @ ''.cluster.qsub''))
          (''#!/bin/bash\<newline>''
           @ qsub_lines partn (case cores of None \<Rightarrow> 1 | Some c \<Rightarrow> if c = 0 then 1 else c)
               limit mem name
           @ ''mkdir -p $LOCAL_SCRATCH\<newline>''
           @ concat (map (\<lambda>m. ''module load '' @ m @ ''\<newline>'') modules)
           @ preamble (usedir_of cwd path) name
           @ command @ ''\<newline>'' @ pstcmd)]
   \<and> snd (make_job_file \<lparr>QUEUE = ''normal'', POOL = p\<rparr> cwd command name limit cores mem partn
            (ModList modules) path)
     = [Write (path_join (usedir_of cwd path) (name @ ''.cluster''))
          (''#!/bin/bash\<newline>''
           @ concat (map (\<lambda>m. ''module load '' @ m @ ''\<newline>'') modules)
           @ preamble (usedir_of cwd path) name
           @ command @ ''\<newline>'' @ pstcmd)]
   \<and> snd (submit \<lparr>QUEUE = ''normal'', POOL = p\<rparr> cwd replies command name threads limit cores mem
            partn (ModList modules) path dependencies)
     = Write (path_join (abspath cwd ''.'') (name @ ''.cluster''))
         (''#!/bin/bash\<newline>'' @ preamble (abspath cwd ''.'') name @ command @ ''\<newline>'' @ pstcmd)
       # snd (submit_file \<lparr>QUEUE = ''normal'', POOL = p\<rparr> replies
                (path_join (abspath cwd ''.'') (name @ ''.cluster'')) (StrV name) (One NoneV) threads)"
proof -
  have pre: "precmd ms u name
               = concat (map (\<lambda>m. ''module load '' @ m @ ''\<newline>'') ms) @ preamble u name" for ms u
    by (simp only: precmd_def module_lines append_Nil)
  have ok: "check_queue \<lparr>QUEUE = ''slurm'', POOL = p\<rparr> = Inr ()"
    "check_queue \<lparr>QUEUE = ''torque'', POOL = p\<rparr> = Inr ()"
    "check_queue \<lparr>QUEUE = ''normal'', POOL = p\<rparr> = Inr ()"
    by (simp_all add: check_queue_def ALLOWED_QUEUES_def)
  have m: "snd (make_job_file \<lparr>QUEUE = ''slurm'', POOL = p\<rparr> cwd command name limit cores mem partn
          (ModList modules) path)
     = [Write (path_join (usedir_of cwd path) (name @ ''.cluster.sbatch''))
          (sbatch_lines partn (case cores of None \<Rightarrow> 1 | Some c \<Rightarrow> if c = 0 then 1 else c)
             limit mem name (usedir_of cwd path)),
        Write (path_join (usedir_of cwd path) (name @ ''.script''))
          (''#!/bin/bash\<newline>mkdir -p $LOCAL_SCRATCH\<newline>''
           @ concat (map (\<lambda>m. ''module load '' @ m @ ''\<newline>'') modules)
           @ preamble (usedir_of cwd path) name
           @ command @ ''\<newline>'' @ pstcmd)]"
    by (simp add: make_job_file_def ok Let_def pre)
  have t: "snd (make_job_file \<lparr>QUEUE = ''torque'', POOL = p\<rparr> cwd command name limit cores mem partn
            (ModList modules) path)
     = [Write (path_join (usedir_of cwd path) (name @ ''.cluster.qsub''))
          (''#!/bin/bash\<newline>''
           @ qsub_lines partn (case cores of None \<Rightarrow> 1 | Some c \<Rightarrow> if c = 0 then 1 else c)
               limit mem name
           @ ''mkdir -p $LOCAL_SCRATCH\<newline>''
           @ concat (map (\<lambda>m. ''module load '' @ m @ ''\<newline>'') modules)
           @ preamble (usedir_of cwd path) name
           @ command @ ''\<newline>'' @ pstcmd)]"
    by (simp add: make_job_file_def ok Let_def pre)
  have n: "snd (make_job_file \<lparr>QUEUE = ''normal'', POOL = p\<rparr> cwd command name limit cores mem partn
            (ModList modules) path)
     = [Write (path_join (usedir_of cwd path) (name @ ''.cluster''))
          (''#!/bin/bash\<newline>''
           @ concat (map (\<lambda>m. ''module load '' @ m @ ''\<newline>'') modules)
           @ preamble (usedir_of cwd path) name
           @ command @ ''\<newline>'' @ pstcmd)]"
    by (simp add: make_job_file_def ok Let_def pre)
  have s: "snd (submit \<lparr>QUEUE = ''normal'', POOL = p\<rparr> cwd replies command name threads limit cores mem
            partn (ModList modules) path dependencies)
     = Write (path_join (abspath cwd ''.'') (name @ ''.cluster''))
         (''#!/bin/bash\<newline>'' @ preamble (abspath cwd ''.'') name @ command @ ''\<newline>'' @ pstcmd)
       # snd (submit_file \<lparr>QUEUE = ''normal'', POOL = p\<rparr> replies
                (path_join (abspath cwd ''.'') (name @ ''.cluster'')) (StrV name) (One NoneV) threads)"
    by (simp add: submit_def make_job_file_def ok Let_def pre emit_def usedir_of_def)
  from m t n s show ?thesis by blast
qed

text \<open>
  C9. In normal mode with name \<open>job1\<close>, command \<open>echo hi\<close> and every other argument at its
  default, \<open>make_job_file\<close> writes one file, \<open>job1.cluster\<close> in the current directory, with
  exactly: the line \<open>#!/bin/bash\<close>; \<open>cd\<close> to that directory, the \<open>date\<close> line and
  \<open>echo "Running job1"\<close>; the line \<open>echo hi\<close>; \<open>exitcode=$?\<close>, \<open>echo Done\<close>, the \<open>date\<close> line
  and the \<open>if\<close> that reports a non-zero exit code to the error stream. The path of the
  current directory has no newline in it.
\<close>

theorem local_job_file_content:
  assumes "CHR 0x0A \<notin> set cwd"
  shows \<open>make_job_file \<lparr>QUEUE = ''normal'', POOL = p\<rparr> cwd ''echo hi'' ''job1'' None (Some 1) None None
           (ModList []) None
         = (Inr (path_join (abspath cwd ''.'') ''job1.cluster''),
            [Write (path_join (abspath cwd ''.'') ''job1.cluster'')
               (''#!/bin/bash\<newline>''
                @ ''cd '' @ abspath cwd ''.'' @ ''\<newline>date +'%d-%H:%M:%S\'\<newline>echo "Running job1"\<newline>''
                @ ''echo hi\<newline>''
                @ ''exitcode=$?\<newline>echo Done\<newline>date +'%d-%H:%M:%S\'\<newline>if [[ $exitcode != 0 ]]; then\<newline>    echo Exited with code: $? >&2\<newline>fi\<newline>'')])\<close>
proof -
  have u: "CHR 0x0A \<notin> set (abspath cwd ''.'')"
    using assms by (intro abspath_no_newline) simp_all
  have pre: \<open>preamble (abspath cwd ''.'') ''job1''
      = ''cd '' @ abspath cwd ''.'' @ ''\<newline>date +'%d-%H:%M:%S\'\<newline>echo "Running job1"\<newline>''\<close>
    using preamble_flat [OF u, of "''job1''"] by simp
  show ?thesis
    by (simp add: make_job_file_def check_queue_def ALLOWED_QUEUES_def usedir_of_def
          precmd_def pre pstcmd_flat Let_def)
qed

theorem local_job_file_content_witness:
  \<open>CHR 0x0A \<notin> set ''/home/u''
   \<and> make_job_file initial ''/home/u'' ''echo hi'' ''job1'' None (Some 1) None None (ModList []) None
     = (Inr ''/home/u/job1.cluster'',
        [Write ''/home/u/job1.cluster''
           ''#!/bin/bash\<newline>cd /home/u\<newline>date +'%d-%H:%M:%S\'\<newline>echo "Running job1"\<newline>echo hi\<newline>exitcode=$?\<newline>echo Done\<newline>date +'%d-%H:%M:%S\'\<newline>if [[ $exitcode != 0 ]]; then\<newline>    echo Exited with code: $? >&2\<newline>fi\<newline>''])\<close>
proof -
  have n: "CHR 0x0A \<notin> set ''/home/u''"
    by simp
  have a: "abspath ''/home/u'' ''.'' = ''/home/u''"
    by code_simp
  from local_job_file_content [OF n, of None] n show ?thesis
    by (simp add: a initial_def path_join_def startswith_def endswith_def)
qed

subsection \<open>Cleaning\<close>

text \<open>
  Whatever the directory, a name that \<open>clean\<close> returns as deleted ends in one of the
  suffixes of the mode. When the directory is the current one, \<open>clean\<close> deletes and
  returns every regular file in it whose name ends in one of the suffixes, and nothing
  else: no name ends in two of them, so no file is removed twice.
\<close>

lemma endswith_shorter:
  "endswith f e \<Longrightarrow> length e' \<le> length e \<Longrightarrow> endswith f e' = (take (length e') (rev e) = rev e')"
proof -
  assume a: "endswith f e" and l: "length e' \<le> length e"
  have "take (length e') (rev f) = take (length e') (take (length e) (rev f))"
    using l by (simp add: min_def)
  with a show ?thesis by (simp add: endswith_def)
qed

lemma one_extension:
  assumes "QUEUE st \<in> set ALLOWED_QUEUES"
  shows "length (filter (endswith f) (extensions st)) \<le> 1"
proof -
  have x: "\<not> (endswith f e \<and> endswith f e')"
    if "length e' \<le> length e" "take (length e') (rev e) \<noteq> rev e'" for e e'
    using that endswith_shorter [of f e e'] by auto
  have
    "\<not> (endswith f ''.cluster.err'' \<and> endswith f ''.cluster.out'')"
    "\<not> (endswith f ''.cluster.err'' \<and> endswith f ''.cluster'')"
    "\<not> (endswith f ''.cluster.out'' \<and> endswith f ''.cluster'')"
    "\<not> (endswith f ''.cluster.sbatch'' \<and> endswith f ''.cluster.err'')"
    "\<not> (endswith f ''.cluster.script'' \<and> endswith f ''.cluster.err'')"
    "\<not> (endswith f ''.cluster.sbatch'' \<and> endswith f ''.cluster.out'')"
    "\<not> (endswith f ''.cluster.script'' \<and> endswith f ''.cluster.out'')"
    "\<not> (endswith f ''.cluster.sbatch'' \<and> endswith f ''.cluster.script'')"
    "\<not> (endswith f ''.cluster.qsub'' \<and> endswith f ''.cluster.err'')"
    "\<not> (endswith f ''.cluster.qsub'' \<and> endswith f ''.cluster.out'')"
    by (rule x; simp)+
  with assms show ?thesis
    by (auto simp: ALLOWED_QUEUES_def extensions_def)
qed


lemma clean_file_no_match:
  "filter (endswith f) exts = [] \<Longrightarrow> clean_file cwd f exts acc = Inr acc"
  by (induction exts) (cases acc; auto split: if_splits)+

lemma clean_file_result:
  assumes "isfile fs cwd f" and "length (filter (endswith f) exts) \<le> 1"
  shows "clean_file cwd f exts (fs, deleted)
           = Inr (if list_ex (endswith f) exts
                  then (fs(cwd := map_option (filter (\<lambda>entry. fst entry \<noteq> f)) (fs cwd)),
                        deleted @ [f])
                  else (fs, deleted))"
  using assms
proof (induction exts)
  case Nil
  then show ?case by simp
next
  case (Cons extension exts)
  show ?case
  proof (cases "endswith f extension")
    case True
    with Cons.prems have "filter (endswith f) exts = []" by simp
    then show ?thesis
      using True Cons.prems(1) by (simp add: remove_def clean_file_no_match)
  next
    case False
    with Cons show ?thesis by simp
  qed
qed

lemma map_of_filter_other:
  "g \<noteq> f \<Longrightarrow> map_of (filter (\<lambda>entry. fst entry \<noteq> f) es) g = map_of es g"
  by (induction es) auto

lemma clean_files_result:
  assumes "fs cwd = Some es"
      and "distinct files"
      and "\<forall>f \<in> set files. map_of es f = Some File"
      and "\<forall>f. length (filter (endswith f) exts) \<le> 1"
  shows "clean_files cwd files exts (fs, deleted)
           = Inr (fs(cwd := Some (filter (\<lambda>entry. \<not> (fst entry \<in> set files
                                                    \<and> list_ex (endswith (fst entry)) exts)) es)),
                  deleted @ filter (\<lambda>f. list_ex (endswith f) exts) files)"
  using assms
proof (induction files arbitrary: fs es deleted)
  case Nil
  then show ?case by (simp add: fun_upd_idem)
next
  case (Cons f files)
  have reg: "isfile fs cwd f"
    using Cons.prems by (simp add: isfile_def)
  have one: "length (filter (endswith f) exts) \<le> 1"
    using Cons.prems(4) by simp
  show ?case
  proof (cases "list_ex (endswith f) exts")
    case True
    let ?es = "filter (\<lambda>entry. fst entry \<noteq> f) es"
    let ?fs = "fs(cwd := Some ?es)"
    have step: "clean_file cwd f exts (fs, deleted) = Inr (?fs, deleted @ [f])"
      using clean_file_result [OF reg one, of deleted] True Cons.prems(1) by simp
    have rest: "\<forall>g \<in> set files. map_of ?es g = Some File"
    proof
      fix g assume g: "g \<in> set files"
      with Cons.prems(2) have "g \<noteq> f" by auto
      with g Cons.prems(3) show "map_of ?es g = Some File"
        by (simp add: map_of_filter_other)
    qed
    have ih: "clean_files cwd files exts (?fs, deleted @ [f])
            = Inr (?fs(cwd := Some (filter (\<lambda>entry. \<not> (fst entry \<in> set files
                                                    \<and> list_ex (endswith (fst entry)) exts)) ?es)),
                   (deleted @ [f]) @ filter (\<lambda>f. list_ex (endswith f) exts) files)"
      using Cons.prems(2,4) rest by (intro Cons.IH) simp_all
    have eq: "filter (\<lambda>entry. \<not> (fst entry \<in> set files
                                        \<and> list_ex (endswith (fst entry)) exts)) ?es
                   = filter (\<lambda>entry. \<not> (fst entry \<in> set (f # files)
                                        \<and> list_ex (endswith (fst entry)) exts)) es"
      using True by (auto intro: filter_cong)
    have "clean_files cwd (f # files) exts (fs, deleted)
            = clean_files cwd files exts (?fs, deleted @ [f])"
      by (simp only: clean_files.simps step sum.case)
    also note ih
    also have "Inr (?fs(cwd := Some (filter (\<lambda>entry. \<not> (fst entry \<in> set files
                                                    \<and> list_ex (endswith (fst entry)) exts)) ?es)),
                   (deleted @ [f]) @ filter (\<lambda>f. list_ex (endswith f) exts) files)
          = Inr (fs(cwd := Some (filter (\<lambda>entry. \<not> (fst entry \<in> set (f # files)
                                                    \<and> list_ex (endswith (fst entry)) exts)) es)),
                  deleted @ filter (\<lambda>f. list_ex (endswith f) exts) (f # files))"
      unfolding eq using True by simp
    finally show ?thesis .
  next
    case False
    have step: "clean_file cwd f exts (fs, deleted) = Inr (fs, deleted)"
      using clean_file_result [OF reg one, of deleted] False by simp
    have ih: "clean_files cwd files exts (fs, deleted)
            = Inr (fs(cwd := Some (filter (\<lambda>entry. \<not> (fst entry \<in> set files
                                                    \<and> list_ex (endswith (fst entry)) exts)) es)),
                   deleted @ filter (\<lambda>f. list_ex (endswith f) exts) files)"
      using Cons.prems by (intro Cons.IH) simp_all
    have eq: "filter (\<lambda>entry. \<not> (fst entry \<in> set files
                                        \<and> list_ex (endswith (fst entry)) exts)) es
                   = filter (\<lambda>entry. \<not> (fst entry \<in> set (f # files)
                                        \<and> list_ex (endswith (fst entry)) exts)) es"
      using False by (auto intro: filter_cong)
    have "clean_files cwd (f # files) exts (fs, deleted)
            = clean_files cwd files exts (fs, deleted)"
      by (simp only: clean_files.simps step sum.case)
    also note ih
    also have "Inr (fs(cwd := Some (filter (\<lambda>entry. \<not> (fst entry \<in> set files
                                                    \<and> list_ex (endswith (fst entry)) exts)) es)),
                   deleted @ filter (\<lambda>f. list_ex (endswith f) exts) files)
          = Inr (fs(cwd := Some (filter (\<lambda>entry. \<not> (fst entry \<in> set (f # files)
                                                    \<and> list_ex (endswith (fst entry)) exts)) es)),
                  deleted @ filter (\<lambda>f. list_ex (endswith f) exts) (f # files))"
      unfolding eq using False by simp
    finally show ?thesis .
  qed
qed

lemma clean_current_directory:
  assumes q: "QUEUE st \<in> set ALLOWED_QUEUES"
      and d: "abspath cwd directory = cwd"
      and e: "fs cwd = Some entries"
      and dist: "distinct (map fst entries)"
  shows "fst (clean st cwd fs directory)
           = Inr ([f \<leftarrow> map fst entries.
                     map_of entries f = Some File \<and> list_ex (endswith f) (extensions st)],
                  fs(cwd := Some [entry \<leftarrow> entries.
                     \<not> (snd entry = File \<and> list_ex (endswith (fst entry)) (extensions st))]))"
proof -
  let ?files = "[i \<leftarrow> map fst entries. isfile fs cwd i]"
  let ?M = "\<lambda>f. list_ex (endswith f) (extensions st)"
  have isf: "isfile fs cwd i = (map_of entries i = Some File)" for i
    using e by (simp add: isfile_def)
  have kind: "map_of entries (fst entry) = Some (snd entry)" if "entry \<in> set entries" for entry
  proof -
    from that have "(fst entry, snd entry) \<in> set entries" by simp
    then show ?thesis by (simp add: map_of_eq_Some_iff [OF dist])
  qed
  have mem: "(fst entry \<in> set ?files) = (snd entry = File)" if "entry \<in> set entries" for entry
    using that kind [OF that] by (auto simp: isf)
  have keep: "filter (\<lambda>entry. \<not> (fst entry \<in> set ?files \<and> ?M (fst entry))) entries
              = filter (\<lambda>entry. \<not> (snd entry = File \<and> ?M (fst entry))) entries"
    using mem by (intro filter_cong) auto
  have del: "filter ?M ?files = [f \<leftarrow> map fst entries. map_of entries f = Some File \<and> ?M f]"
    by (simp add: isf conj_commute)
  have run: "clean_files cwd ?files (extensions st) (fs, [])
             = Inr (fs(cwd := Some (filter (\<lambda>entry. \<not> (fst entry \<in> set ?files \<and> ?M (fst entry)))
                                      entries)),
                    [] @ filter ?M ?files)"
    using e dist one_extension [OF q]
    by (intro clean_files_result) (auto simp: isf distinct_map_filter)
  have run': "clean_files cwd ?files (extensions st) (fs, [])
              = Inr (fs(cwd := Some (filter (\<lambda>entry. \<not> (snd entry = File \<and> ?M (fst entry)))
                                       entries)),
                     [f \<leftarrow> map fst entries. map_of entries f = Some File \<and> ?M f])"
    using run by (simp only: keep del append_Nil)
  have ok: "check_queue st = Inr ()"
    using q by (simp add: check_queue_def)
  show ?thesis
  proof (cases "?files = []")
    case True
    then have "filter (\<lambda>entry. \<not> (snd entry = File \<and> ?M (fst entry))) entries = entries"
      using keep [symmetric] by simp
    moreover have "[f \<leftarrow> map fst entries. map_of entries f = Some File \<and> ?M f] = []"
      using del [symmetric] True by simp
    ultimately show ?thesis
      using True e by (simp add: clean_def ok d fun_upd_idem)
  next
    case False
    with run' show ?thesis
      by (simp add: clean_def ok d e)
  qed
qed


lemma clean_file_deleted:
  "clean_file cwd f exts (fs, deleted) = Inr (fs', deleted')
   \<Longrightarrow> set deleted' \<subseteq> set deleted \<union> {g. g = f \<and> list_ex (endswith f) exts}"
proof (induction exts arbitrary: fs deleted)
  case Nil
  then show ?case by simp
next
  case (Cons extension exts)
  show ?case
  proof (cases "endswith f extension")
    case True
    with Cons.prems obtain fs1 where
      "clean_file cwd f exts (fs1, deleted @ [f]) = Inr (fs', deleted')"
      by (auto split: sum.splits)
    from Cons.IH [OF this] True show ?thesis by auto
  next
    case False
    with Cons.prems have "clean_file cwd f exts (fs, deleted) = Inr (fs', deleted')"
      by simp
    from Cons.IH [OF this] show ?thesis by auto
  qed
qed

lemma clean_files_deleted:
  "clean_files cwd files exts (fs, deleted) = Inr (fs', deleted')
   \<Longrightarrow> set deleted' \<subseteq> set deleted \<union> {f \<in> set files. list_ex (endswith f) exts}"
proof (induction files arbitrary: fs deleted)
  case Nil
  then show ?case by simp
next
  case (Cons f files)
  from Cons.prems obtain fs1 deleted1 where
    one: "clean_file cwd f exts (fs, deleted) = Inr (fs1, deleted1)"
    and rest: "clean_files cwd files exts (fs1, deleted1) = Inr (fs', deleted')"
    by (auto split: sum.splits)
  from clean_file_deleted [OF one] Cons.IH [OF rest] show ?case by auto
qed

lemma clean_deleted_names:
  assumes "fst (clean st cwd fs directory) = Inr (deleted, fs')" and "f \<in> set deleted"
  shows "list_ex (endswith f) (extensions st)"
proof -
  from assms obtain files where
    "clean_files cwd files (extensions st) (fs, []) = Inr (fs', deleted)"
    by (auto simp: clean_def Let_def split: sum.splits option.splits if_splits)
  from clean_files_deleted [OF this] assms(2) show ?thesis by auto
qed

text \<open>
  C7. \<open>clean\<close> is called from \<open>/home/u\<close> for the directory \<open>/data/run1\<close>, which holds the
  file \<open>a.cluster.out\<close>. The names that \<open>os.listdir\<close> gives are passed to \<open>os.path.isfile\<close>
  and \<open>os.remove\<close> as they are, so they are looked up in \<open>/home/u\<close>. When \<open>/home/u\<close> has no
  \<open>a.cluster.out\<close>, nothing is deleted and the file in \<open>/data/run1\<close> stays; when it has
  one, that file is deleted and the one in \<open>/data/run1\<close> stays.
\<close>

theorem clean_resolves_names_in_cwd:
  "(case fst (clean initial ''/home/u''
                (two_directories [(''notes.txt'', File)] [(''a.cluster.out'', File)])
                ''/data/run1'') of
      Inl e \<Rightarrow> False
    | Inr (deleted, fs') \<Rightarrow>
        deleted = [] \<and> fs' ''/data/run1'' = Some [(''a.cluster.out'', File)])
   \<and> (case fst (clean initial ''/home/u''
                  (two_directories [(''a.cluster.out'', File), (''notes.txt'', File)]
                                   [(''a.cluster.out'', File)])
                  ''/data/run1'') of
        Inl e \<Rightarrow> False
      | Inr (deleted, fs') \<Rightarrow>
          deleted = [''a.cluster.out'']
          \<and> fs' ''/home/u'' = Some [(''notes.txt'', File)]
          \<and> fs' ''/data/run1'' = Some [(''a.cluster.out'', File)])"
  by code_simp

end
